theory Spec2Isabelle
  imports Main "HOL-Library.Sublist"
begin

section \<open>Data model of \<open>fastapi/applications.py\<close>\<close>

text \<open>
  Python values that the application stores without looking inside them (tag
  dictionaries, server dictionaries, OAuth2 settings, the extra keyword bag) are values
  of \<open>pyval\<close>; a Python \<open>dict\<close> with string keys is an association list, which
  keeps the insertion order.
\<close>

datatype pyval =
    PNone
  | PBool bool
  | PInt int
  | PStr string
  | PList "pyval list"
  | PDict "(string \<times> pyval) list"

type_synonym pydict = "(string \<times> pyval) list"

text \<open>The exceptions that the modelled code can raise.\<close>

datatype py_error =
    NameError string
  | AttributeError string
  | ImportError string

text \<open>
  An instance attribute is either absent from the object (reading it raises
  \<open>AttributeError\<close>) or bound to a value; an attribute bound to Python's \<open>None\<close>
  is \<open>Bound None\<close>.
\<close>

datatype 'a attr = Unset | Bound 'a

text \<open>
  The callables that can stand behind a route: the four bound methods of the
  application that serve the documentation, and handlers supplied by the caller.
\<close>

datatype endpoint =
    Openapi_method
  | Swagger_ui_html_method
  | Swagger_ui_oauth2_redirect_html_method
  | Redoc_html_method
  | Handler string

record route =
  route_path :: "string option"
  route_endpoint :: endpoint
  include_in_schema :: bool

datatype response_class = JSONResponse | HTMLResponse | Response | Other_response string

text \<open>
  The keyword arguments of a call of the constructor. Each field is \<open>None\<close> when the
  call does not pass the argument and \<open>Some v\<close> when it passes \<open>v\<close>; an argument
  of type \<open>Optional[...]\<close> passed as Python's \<open>None\<close> is \<open>Some None\<close>.
\<close>

record kwargs =
  kw_debug :: "bool option"
  kw_routes :: "route list option option"
  kw_title :: "string option"
  kw_description :: "string option"
  kw_version :: "string option"
  kw_openapi_url :: "string option option"
  kw_openapi_tags :: "pydict list option option"
  kw_servers :: "pydict list option option"
  kw_default_response_class :: "response_class option"
  kw_docs_url :: "string option option"
  kw_redoc_url :: "string option option"
  kw_swagger_ui_oauth2_redirect_url :: "string option option"
  kw_swagger_ui_init_oauth :: "pydict option option"
  kw_middleware :: "string list option option"
  kw_exception_handlers :: "(string \<times> string) list option option"
  kw_on_startup :: "string list option option"
  kw_on_shutdown :: "string list option option"
  kw_extra :: pydict

text \<open>
  The application object: the attributes that \<open>__init__\<close> assigns, the route list
  of the router that the base class builds, and the attribute \<open>openapi_schema\<close> that
  \<open>openapi\<close> reads and assigns.
\<close>

record app =
  debug :: bool
  routes :: "route list"
  on_startup :: "string list option"
  on_shutdown :: "string list option"
  title :: string
  description :: string
  version :: string
  openapi_url :: "string option"
  openapi_tags :: "pydict list option"
  servers :: "pydict list option"
  default_response_class :: response_class
  docs_url :: "string option"
  redoc_url :: "string option"
  swagger_ui_oauth2_redirect_url :: "string option"
  swagger_ui_init_oauth :: "pydict option"
  middleware :: "string list option"
  exception_handlers :: "(string \<times> string) list option"
  extra :: pydict
  openapi_schema :: "pydict option attr"

section \<open>The constructor\<close>

text \<open>A parameter takes the passed value, or its default when the call omits it.\<close>

definition arg_or :: "'a option \<Rightarrow> 'a \<Rightarrow> 'a" where
  "arg_or passed dflt = (case passed of None \<Rightarrow> dflt | Some v \<Rightarrow> v)"

text \<open>Truth value of an \<open>Optional[str]\<close> in a condition: \<open>None\<close> and \<open>""\<close> are false.\<close>

definition truthy :: "string option \<Rightarrow> bool" where
  "truthy u = (case u of None \<Rightarrow> False | Some s \<Rightarrow> s \<noteq> [])"

text \<open>
  The router and the base class keep a list of the routes passed in, the empty list
  when \<open>routes\<close> is \<open>None\<close>.
\<close>

definition route_list :: "route list option \<Rightarrow> route list" where
  "route_list rs = (case rs of None \<Rightarrow> [] | Some l \<Rightarrow> l)"

text \<open>
  Lines 88 to 117: the attribute assignments and the call of the base constructor.
  No statement assigns \<open>openapi_schema\<close>, so the attribute is absent afterwards.
\<close>

definition assign_attributes :: "kwargs \<Rightarrow> app" where
  "assign_attributes kw =
     \<lparr> debug = arg_or (kw_debug kw) False,
       routes = route_list (arg_or (kw_routes kw) None),
       on_startup = arg_or (kw_on_startup kw) None,
       on_shutdown = arg_or (kw_on_shutdown kw) None,
       title = arg_or (kw_title kw) ''FastAPI'',
       description = arg_or (kw_description kw) '''',
       version = arg_or (kw_version kw) ''0.1.0'',
       openapi_url = arg_or (kw_openapi_url kw) (Some ''/openapi.json''),
       openapi_tags = arg_or (kw_openapi_tags kw) None,
       servers = arg_or (kw_servers kw) None,
       default_response_class = arg_or (kw_default_response_class kw) JSONResponse,
       docs_url = arg_or (kw_docs_url kw) (Some ''/docs''),
       redoc_url = arg_or (kw_redoc_url kw) (Some ''/redoc''),
       swagger_ui_oauth2_redirect_url =
         arg_or (kw_swagger_ui_oauth2_redirect_url kw) (Some ''/docs/oauth2-redirect''),
       swagger_ui_init_oauth = arg_or (kw_swagger_ui_init_oauth kw) None,
       middleware = arg_or (kw_middleware kw) None,
       exception_handlers = arg_or (kw_exception_handlers kw) None,
       extra = kw_extra kw,
       openapi_schema = Unset \<rparr>"

text \<open>The base class's \<open>add_route\<close> appends a route to the route list.\<close>

definition add_route :: "string option \<Rightarrow> endpoint \<Rightarrow> bool \<Rightarrow> app \<Rightarrow> app" where
  "add_route p e inc self =
     self\<lparr>routes := routes self @
       [\<lparr>route_path = p, route_endpoint = e, include_in_schema = inc\<rparr>]\<rparr>"

text \<open>Lines 119 to 129: the three conditionals that register the documentation routes.\<close>

definition register_openapi :: "app \<Rightarrow> app" where
  "register_openapi self =
     (if truthy (openapi_url self)
      then add_route (openapi_url self) Openapi_method False self
      else self)"

definition register_docs :: "app \<Rightarrow> app" where
  "register_docs self =
     (if truthy (docs_url self)
      then add_route (swagger_ui_oauth2_redirect_url self)
             Swagger_ui_oauth2_redirect_html_method False
             (add_route (docs_url self) Swagger_ui_html_method False self)
      else self)"

definition register_redoc :: "app \<Rightarrow> app" where
  "register_redoc self =
     (if truthy (redoc_url self)
      then add_route (redoc_url self) Redoc_html_method False self
      else self)"

definition FastAPI_init :: "kwargs \<Rightarrow> app" where
  "FastAPI_init kw =
     register_redoc (register_docs (register_openapi (assign_attributes kw)))"

text \<open>The call \<open>FastAPI()\<close>: no argument is passed.\<close>

definition no_kwargs :: kwargs where
  "no_kwargs =
     \<lparr> kw_debug = None, kw_routes = None, kw_title = None, kw_description = None,
       kw_version = None, kw_openapi_url = None, kw_openapi_tags = None,
       kw_servers = None, kw_default_response_class = None, kw_docs_url = None,
       kw_redoc_url = None, kw_swagger_ui_oauth2_redirect_url = None,
       kw_swagger_ui_init_oauth = None, kw_middleware = None,
       kw_exception_handlers = None, kw_on_startup = None, kw_on_shutdown = None,
       kw_extra = [] \<rparr>"

section \<open>The schema and HTML generators\<close>

text \<open>
  The generators live in \<open>fastapi.openapi.utils\<close> and \<open>fastapi.openapi.docs\<close>, which
  this file imports. Their models below are written from the specification.
\<close>

definition opt_str :: "string option \<Rightarrow> pyval" where
  "opt_str u = (case u of None \<Rightarrow> PNone | Some s \<Rightarrow> PStr s)"

definition opt_dicts :: "pydict list option \<Rightarrow> pyval" where
  "opt_dicts ds = (case ds of None \<Rightarrow> PNone | Some l \<Rightarrow> PList (map PDict l))"

text \<open>
  Modelled from the spec: \<open>get_openapi\<close> of \<open>fastapi.openapi.utils\<close> is missing. The
  specification says that the schema document is computed from the route list, title,
  version, description, tags and server list, and that it contains the title, the
  version and the description verbatim. It does not say how the routes enter the
  document: that part of the generator is the parameter \<open>paths_of\<close>.
\<close>

definition get_openapi ::
  "(route list \<Rightarrow> pyval) \<Rightarrow> string \<Rightarrow> string \<Rightarrow> string \<Rightarrow> route list \<Rightarrow> pydict list option
     \<Rightarrow> pydict list option \<Rightarrow> pydict" where
  "get_openapi paths_of ttl ver descr rs tags srvs =
     [(''title'', PStr ttl),
      (''version'', PStr ver),
      (''description'', PStr descr),
      (''paths'', paths_of rs),
      (''tags'', opt_dicts tags),
      (''servers'', opt_dicts srvs)]"

text \<open>Text of a Python value inside a page; integers in decimal.\<close>

fun digits :: "nat \<Rightarrow> string" where
  "digits n =
     (if n < 10 then [char_of (48 + n)] else digits (n div 10) @ [char_of (48 + n mod 10)])"

definition show_int :: "int \<Rightarrow> string" where
  "show_int i = (if i < 0 then CHR ''-'' # digits (nat (- i)) else digits (nat i))"

fun render :: "pyval \<Rightarrow> string" where
  "render PNone = ''null''"
| "render (PBool b) = (if b then ''true'' else ''false'')"
| "render (PInt i) = show_int i"
| "render (PStr s) = s"
| "render (PList vs) = ''['' @ concat (map (\<lambda>v. render v @ '','') vs) @ '']''"
| "render (PDict kvs) =
     ''{'' @ concat (map (\<lambda>kv. fst kv @ '':'' @ render (snd kv) @ '','') kvs) @ ''}''"

definition py_str :: "string option \<Rightarrow> string" where
  "py_str u = (case u of None \<Rightarrow> ''None'' | Some s \<Rightarrow> s)"

text \<open>
  Modelled from the spec: \<open>get_swagger_ui_html\<close> of \<open>fastapi.openapi.docs\<close> is
  missing. The specification says that the docs page is a rendered HTML document, a pure
  function of the schema URL, the title and the OAuth2 settings, and that it contains
  the schema URL as an embedded reference.
\<close>

definition get_swagger_ui_html ::
  "string option \<Rightarrow> string \<Rightarrow> string option \<Rightarrow> pydict option \<Rightarrow> string" where
  "get_swagger_ui_html openapi_url_arg title_arg oauth2_redirect_url init_oauth =
     ''<html><head><title>'' @ title_arg @ ''</title></head><body><script>url: ''
     @ py_str openapi_url_arg
     @ ''; oauth2RedirectUrl: '' @ py_str oauth2_redirect_url
     @ ''; initOAuth: '' @ (case init_oauth of None \<Rightarrow> ''null'' | Some d \<Rightarrow> render (PDict d))
     @ ''</script></body></html>''"

text \<open>
  Modelled from the spec: \<open>get_swagger_ui_oauth2_redirect_html\<close> of
  \<open>fastapi.openapi.docs\<close> is missing. The specification says that it returns a static
  HTML document and has no parameters.
\<close>

definition get_swagger_ui_oauth2_redirect_html :: string where
  "get_swagger_ui_oauth2_redirect_html =
     ''<html><body><script>oauth2 redirect</script></body></html>''"

text \<open>
  Modelled from the spec: \<open>get_redoc_html\<close> of \<open>fastapi.openapi.docs\<close> is missing.
  The specification says that the redoc page is a rendered HTML document, a pure
  function of the schema URL and the title.
\<close>

definition get_redoc_html :: "string option \<Rightarrow> string \<Rightarrow> string" where
  "get_redoc_html openapi_url_arg title_arg =
     ''<html><head><title>'' @ title_arg @ ''</title></head><body><redoc spec-url=''
     @ py_str openapi_url_arg @ ''></redoc></body></html>''"

section \<open>The methods\<close>

text \<open>
  Each method takes the application and returns its result with the application
  afterwards. \<open>openapi\<close> reads the attribute \<open>openapi_schema\<close> first: an absent
  attribute raises \<open>AttributeError\<close>; \<open>None\<close> and the empty dictionary are false
  in the condition \<open>not self.openapi_schema\<close>. The parameter \<open>paths_of\<close> is the
  one of the schema generator that \<open>openapi\<close> calls.
\<close>

definition compute_schema :: "(route list \<Rightarrow> pyval) \<Rightarrow> app \<Rightarrow> (py_error + pydict) \<times> app" where
  "compute_schema paths_of self =
     (let d = get_openapi paths_of (title self) (version self) (description self)
                (routes self) (openapi_tags self) (servers self)
      in (Inr d, self\<lparr>openapi_schema := Bound (Some d)\<rparr>))"

definition openapi :: "(route list \<Rightarrow> pyval) \<Rightarrow> app \<Rightarrow> (py_error + pydict) \<times> app" where
  "openapi paths_of self =
     (case openapi_schema self of
        Unset \<Rightarrow> (Inl (AttributeError ''openapi_schema''), self)
      | Bound None \<Rightarrow> compute_schema paths_of self
      | Bound (Some cached) \<Rightarrow>
          if cached = [] then compute_schema paths_of self else (Inr cached, self))"

definition swagger_ui_html :: "app \<Rightarrow> string \<times> app" where
  "swagger_ui_html self =
     (get_swagger_ui_html (openapi_url self) (title self @ '' - Swagger UI'')
        (swagger_ui_oauth2_redirect_url self) (swagger_ui_init_oauth self),
      self)"

definition swagger_ui_oauth2_redirect_html :: "app \<Rightarrow> string \<times> app" where
  "swagger_ui_oauth2_redirect_html self = (get_swagger_ui_oauth2_redirect_html, self)"

definition redoc_html :: "app \<Rightarrow> string \<times> app" where
  "redoc_html self = (get_redoc_html (openapi_url self) (title self @ '' - ReDoc''), self)"

text \<open>A client's calls of the four methods, one after the other.\<close>

datatype method_call =
    Call_openapi
  | Call_swagger_ui_html
  | Call_swagger_ui_oauth2_redirect_html
  | Call_redoc_html

fun call :: "(route list \<Rightarrow> pyval) \<Rightarrow> method_call \<Rightarrow> app \<Rightarrow> app" where
  "call paths_of Call_openapi self = snd (openapi paths_of self)"
| "call paths_of Call_swagger_ui_html self = snd (swagger_ui_html self)"
| "call paths_of Call_swagger_ui_oauth2_redirect_html self =
     snd (swagger_ui_oauth2_redirect_html self)"
| "call paths_of Call_redoc_html self = snd (redoc_html self)"

fun calls :: "(route list \<Rightarrow> pyval) \<Rightarrow> method_call list \<Rightarrow> app \<Rightarrow> app" where
  "calls paths_of [] self = self"
| "calls paths_of (c # cs) self = calls paths_of cs (call paths_of c self)"

section \<open>Routes that the constructor registers\<close>

text \<open>
  The route list after construction starts with the routes passed in; the routes behind
  them are the ones that the constructor has registered itself.
\<close>

definition added_routes :: "kwargs \<Rightarrow> route list" where
  "added_routes kw =
     drop (length (route_list (arg_or (kw_routes kw) None))) (routes (FastAPI_init kw))"

definition registers :: "kwargs \<Rightarrow> endpoint \<Rightarrow> bool" where
  "registers kw e = (e \<in> route_endpoint ` set (added_routes kw))"

text \<open>The call \<open>FastAPI(docs_url=None)\<close>.\<close>

definition docs_off :: kwargs where
  "docs_off = no_kwargs\<lparr>kw_docs_url := Some None\<rparr>"

section \<open>Loading the module\<close>

text \<open>
  Executing the module binds the imported names (lines 4 to 32) and then runs the
  \<open>class\<close> statement. The \<open>def\<close> of \<open>__init__\<close> inside it evaluates the default
  values and the annotations of the parameters when it is executed, as CPython does up
  to version 3.13 (the file has no \<open>from __future__ import annotations\<close>), and a
  name that is neither imported nor built in raises \<open>NameError\<close>.
\<close>

definition imported_names :: "string list" where
  "imported_names =
     [''Any'', ''AsyncGenerator'', ''Dict'', ''List'', ''Optional'', ''Sequence'', ''Tuple'',
      ''Union'', ''routing'', ''run_in_threadpool'', ''DictIntStrAny'', ''SetIntStr'',
      ''RequestValidationError'', ''logger'', ''get_redoc_html'', ''get_swagger_ui_html'',
      ''get_swagger_ui_oauth2_redirect_html'', ''get_openapi'', ''Depends'', ''ASGIApp'',
      ''ASGIInstance'', ''Scope'', ''Starlette'', ''StarletteHTTPException'',
      ''ExceptionMiddleware'', ''Middleware'', ''BaseHTTPMiddleware'', ''CORSMiddleware'',
      ''ServerErrorMiddleware'', ''GZipMiddleware'', ''HTTPSRedirectMiddleware'',
      ''TrustedHostMiddleware'', ''Request'', ''HTMLResponse'', ''JSONResponse'', ''Response'',
      ''BaseRoute'', ''Match'', ''Receive'', ''StarletteScope'', ''Send'']"

text \<open>The built-in names that the signature refers to.\<close>

definition builtin_names :: "string list" where
  "builtin_names = [''bool'', ''int'', ''str'', ''type'', ''Exception'']"

text \<open>
  The parameters of \<open>__init__\<close> (lines 44 to 63), each with the names that its
  annotation refers to, in the order of the source.
\<close>

definition init_annotations :: "(string \<times> string list) list" where
  "init_annotations =
     [(''debug'', [''bool'']),
      (''routes'', [''Optional'', ''List'', ''BaseRoute'']),
      (''title'', [''str'']),
      (''description'', [''str'']),
      (''version'', [''str'']),
      (''openapi_url'', [''Optional'', ''str'']),
      (''openapi_tags'', [''Optional'', ''List'', ''Dict'', ''str'', ''Any'']),
      (''servers'', [''Optional'', ''List'', ''Dict'', ''str'', ''Union'', ''str'', ''Any'']),
      (''default_response_class'', [''type'']),
      (''docs_url'', [''Optional'', ''str'']),
      (''redoc_url'', [''Optional'', ''str'']),
      (''swagger_ui_oauth2_redirect_url'', [''Optional'', ''str'']),
      (''swagger_ui_init_oauth'', [''Optional'', ''Dict'', ''str'', ''Any'']),
      (''middleware'', [''Optional'', ''Sequence'', ''Middleware'']),
      (''exception_handlers'',
         [''Optional'', ''Dict'', ''Union'', ''int'', ''type'', ''Exception'', ''Any'']),
      (''on_startup'', [''Optional'', ''Sequence'', ''Callable'']),
      (''on_shutdown'', [''Optional'', ''Sequence'', ''Callable'']),
      (''extra'', [''Any''])]"

text \<open>
  The names that the \<open>class\<close> statement looks up until \<open>__init__\<close> is defined: the
  base class, the one default value that is a name, and the annotations.
\<close>

definition class_statement_names :: "string list" where
  "class_statement_names =
     [''Starlette''] @ [''JSONResponse''] @ concat (map snd init_annotations)"

text \<open>
  \<open>load_module\<close> takes the outcome of the import statements, which depends on the
  installed packages: \<open>None\<close> when all of them succeed, or the exception raised.
\<close>

definition load_module :: "py_error option \<Rightarrow> py_error + unit" where
  "load_module import_outcome =
     (case import_outcome of
        Some e \<Rightarrow> Inl e
      | None \<Rightarrow>
         (case find (\<lambda>n. n \<notin> set (imported_names @ builtin_names)) class_statement_names of
            Some n \<Rightarrow> Inl (NameError n)
          | None \<Rightarrow> Inr ()))"

text \<open>Constructing an application needs the class, hence the loaded module.\<close>

definition instantiate :: "py_error option \<Rightarrow> kwargs \<Rightarrow> py_error + app" where
  "instantiate import_outcome kw =
     (case load_module import_outcome of
        Inl e \<Rightarrow> Inl e
      | Inr _ \<Rightarrow> Inr (FastAPI_init kw))"

section \<open>Example applications\<close>

text \<open>
  A route listing that leaves out the routes whose \<open>include_in_schema\<close> flag is false.
\<close>

definition flagged_paths :: "route list \<Rightarrow> pyval" where
  "flagged_paths rs = PList (map (\<lambda>r. opt_str (route_path r)) (filter include_in_schema rs))"

text \<open>The call \<open>FastAPI(title="Shop", description="Orders", version="2.1")\<close>.\<close>

definition titled_kwargs :: kwargs where
  "titled_kwargs =
     no_kwargs\<lparr>kw_title := Some ''Shop'', kw_description := Some ''Orders'',
       kw_version := Some ''2.1''\<rparr>"

text \<open>
  The application built by \<open>FastAPI()\<close> after a client has assigned
  \<open>app.openapi_schema = None\<close>, and the schema document that \<open>openapi\<close> computes
  for it with the route listing \<open>flagged_paths\<close>.
\<close>

definition fresh_app :: app where
  "fresh_app = (FastAPI_init no_kwargs)\<lparr>openapi_schema := Bound None\<rparr>"

text \<open>The docs page of \<open>fresh_app\<close>.\<close>

definition default_docs_page :: string where
  "default_docs_page =
     ''<html><head><title>FastAPI - Swagger UI</title></head><body><script>url: /openapi.json; oauth2RedirectUrl: /docs/oauth2-redirect; initOAuth: null</script></body></html>''"

definition default_schema :: pydict where
  "default_schema =
     [(''title'', PStr ''FastAPI''), (''version'', PStr ''0.1.0''), (''description'', PStr []),
      (''paths'', PList []), (''tags'', PNone), (''servers'', PNone)]"

section \<open>Properties of the constructor\<close>

lemma add_route_fields [simp]:
  "routes (add_route p e inc self) =
     routes self @ [\<lparr>route_path = p, route_endpoint = e, include_in_schema = inc\<rparr>]"
  "openapi_url (add_route p e inc self) = openapi_url self"
  "docs_url (add_route p e inc self) = docs_url self"
  "redoc_url (add_route p e inc self) = redoc_url self"
  "swagger_ui_oauth2_redirect_url (add_route p e inc self) =
     swagger_ui_oauth2_redirect_url self"
  "openapi_schema (add_route p e inc self) = openapi_schema self"
  "title (add_route p e inc self) = title self"
  "description (add_route p e inc self) = description self"
  "version (add_route p e inc self) = version self"
  by (simp_all add: add_route_def)

lemma register_keeps_urls [simp]:
  "openapi_url (register_openapi self) = openapi_url self"
  "docs_url (register_openapi self) = docs_url self"
  "redoc_url (register_openapi self) = redoc_url self"
  "swagger_ui_oauth2_redirect_url (register_openapi self) =
     swagger_ui_oauth2_redirect_url self"
  "openapi_url (register_docs self) = openapi_url self"
  "docs_url (register_docs self) = docs_url self"
  "redoc_url (register_docs self) = redoc_url self"
  "swagger_ui_oauth2_redirect_url (register_docs self) =
     swagger_ui_oauth2_redirect_url self"
  "openapi_url (register_redoc self) = openapi_url self"
  "docs_url (register_redoc self) = docs_url self"
  "redoc_url (register_redoc self) = redoc_url self"
  "swagger_ui_oauth2_redirect_url (register_redoc self) =
     swagger_ui_oauth2_redirect_url self"
  by (simp_all add: register_openapi_def register_docs_def register_redoc_def)

lemma init_urls:
  "openapi_url (FastAPI_init kw) = arg_or (kw_openapi_url kw) (Some ''/openapi.json'')"
  "docs_url (FastAPI_init kw) = arg_or (kw_docs_url kw) (Some ''/docs'')"
  "redoc_url (FastAPI_init kw) = arg_or (kw_redoc_url kw) (Some ''/redoc'')"
  "swagger_ui_oauth2_redirect_url (FastAPI_init kw) =
     arg_or (kw_swagger_ui_oauth2_redirect_url kw) (Some ''/docs/oauth2-redirect'')"
  by (simp_all add: FastAPI_init_def assign_attributes_def)

text \<open>The route list after construction, conditional by conditional.\<close>

lemma init_routes:
  "routes (FastAPI_init kw) =
     route_list (arg_or (kw_routes kw) None)
     @ (if truthy (openapi_url (FastAPI_init kw))
        then [\<lparr>route_path = openapi_url (FastAPI_init kw), route_endpoint = Openapi_method,
               include_in_schema = False\<rparr>]
        else [])
     @ (if truthy (docs_url (FastAPI_init kw))
        then [\<lparr>route_path = docs_url (FastAPI_init kw), route_endpoint = Swagger_ui_html_method,
               include_in_schema = False\<rparr>,
              \<lparr>route_path = swagger_ui_oauth2_redirect_url (FastAPI_init kw),
               route_endpoint = Swagger_ui_oauth2_redirect_html_method,
               include_in_schema = False\<rparr>]
        else [])
     @ (if truthy (redoc_url (FastAPI_init kw))
        then [\<lparr>route_path = redoc_url (FastAPI_init kw), route_endpoint = Redoc_html_method,
               include_in_schema = False\<rparr>]
        else [])"
  by (simp add: FastAPI_init_def register_openapi_def register_docs_def register_redoc_def
      assign_attributes_def)

lemma added_routes_eq:
  "added_routes kw =
     (if truthy (openapi_url (FastAPI_init kw))
        then [\<lparr>route_path = openapi_url (FastAPI_init kw), route_endpoint = Openapi_method,
               include_in_schema = False\<rparr>]
        else [])
     @ (if truthy (docs_url (FastAPI_init kw))
        then [\<lparr>route_path = docs_url (FastAPI_init kw), route_endpoint = Swagger_ui_html_method,
               include_in_schema = False\<rparr>,
              \<lparr>route_path = swagger_ui_oauth2_redirect_url (FastAPI_init kw),
               route_endpoint = Swagger_ui_oauth2_redirect_html_method,
               include_in_schema = False\<rparr>]
        else [])
     @ (if truthy (redoc_url (FastAPI_init kw))
        then [\<lparr>route_path = redoc_url (FastAPI_init kw), route_endpoint = Redoc_html_method,
               include_in_schema = False\<rparr>]
        else [])"
  unfolding added_routes_def by (subst init_routes) simp

lemma added_endpoints:
  "map route_endpoint (added_routes kw) =
     (if truthy (openapi_url (FastAPI_init kw)) then [Openapi_method] else [])
     @ (if truthy (docs_url (FastAPI_init kw))
        then [Swagger_ui_html_method, Swagger_ui_oauth2_redirect_html_method] else [])
     @ (if truthy (redoc_url (FastAPI_init kw)) then [Redoc_html_method] else [])"
  by (simp add: added_routes_eq)

lemma registers_iff: "registers kw e \<longleftrightarrow> e \<in> set (map route_endpoint (added_routes kw))"
  by (simp add: registers_def)

lemma default_urls_truthy:
  "truthy (openapi_url (FastAPI_init no_kwargs))"
  "truthy (docs_url (FastAPI_init no_kwargs))"
  "truthy (redoc_url (FastAPI_init no_kwargs))"
  "truthy (swagger_ui_oauth2_redirect_url (FastAPI_init no_kwargs))"
  by (simp_all add: init_urls arg_or_def no_kwargs_def truthy_def)

lemma docs_off_urls:
  "docs_url (FastAPI_init docs_off) = None"
  "swagger_ui_oauth2_redirect_url (FastAPI_init docs_off) = Some ''/docs/oauth2-redirect''"
  "openapi_url (FastAPI_init docs_off) = Some ''/openapi.json''"
  "redoc_url (FastAPI_init docs_off) = Some ''/redoc''"
  by (simp_all add: init_urls arg_or_def no_kwargs_def docs_off_def)

lemma init_schema_unset: "openapi_schema (FastAPI_init kw) = Unset"
  by (simp add: FastAPI_init_def register_openapi_def register_docs_def register_redoc_def
      assign_attributes_def)

text \<open>
  Claim C1, as the code has it. The constructor registers the schema route exactly when
  the schema URL is non-empty, the docs route exactly when the docs URL is non-empty, and
  the redoc route exactly when the redoc URL is non-empty. The OAuth2-redirect route
  sits under the conditional of the docs URL: it is registered only when the docs URL is
  non-empty, and it is registered when both the docs URL and its own URL are non-empty.
\<close>

theorem documentation_routes_registered:
  "(registers kw Openapi_method \<longleftrightarrow> truthy (openapi_url (FastAPI_init kw)))
   \<and> (registers kw Swagger_ui_html_method \<longleftrightarrow> truthy (docs_url (FastAPI_init kw)))
   \<and> (registers kw Redoc_html_method \<longleftrightarrow> truthy (redoc_url (FastAPI_init kw)))
   \<and> (registers kw Swagger_ui_oauth2_redirect_html_method \<longrightarrow>
        truthy (docs_url (FastAPI_init kw)))
   \<and> (truthy (docs_url (FastAPI_init kw))
        \<and> truthy (swagger_ui_oauth2_redirect_url (FastAPI_init kw)) \<longrightarrow>
        registers kw Swagger_ui_oauth2_redirect_html_method)"
  by (auto simp: registers_iff added_endpoints)

theorem documentation_routes_registered_witness:
  "truthy (openapi_url (FastAPI_init no_kwargs))
   \<and> truthy (docs_url (FastAPI_init no_kwargs))
   \<and> truthy (redoc_url (FastAPI_init no_kwargs))
   \<and> truthy (swagger_ui_oauth2_redirect_url (FastAPI_init no_kwargs))
   \<and> registers no_kwargs Openapi_method
   \<and> registers no_kwargs Swagger_ui_html_method
   \<and> registers no_kwargs Redoc_html_method
   \<and> registers no_kwargs Swagger_ui_oauth2_redirect_html_method"
  using documentation_routes_registered [of no_kwargs] by (simp add: default_urls_truthy)

text \<open>
  With \<open>FastAPI(docs_url=None)\<close> the OAuth2-redirect URL keeps its non-empty default,
  and yet the OAuth2-redirect route is not registered: its registration does not follow
  its own field.
\<close>

theorem oauth2_redirect_route_counterexample:
  "\<not> (registers docs_off Swagger_ui_oauth2_redirect_html_method
        \<longleftrightarrow> truthy (swagger_ui_oauth2_redirect_url (FastAPI_init docs_off)))"
  by (simp add: registers_iff added_endpoints docs_off_urls truthy_def)

section \<open>Properties of the schema accessor\<close>

text \<open>
  Claim C2, as the code has it. After construction the attribute \<open>openapi_schema\<close> is
  absent, not \<open>None\<close>, whatever the arguments, and the first call of \<open>openapi\<close>
  raises \<open>AttributeError\<close> and leaves the application as it was.
\<close>

theorem openapi_after_construction_raises:
  "openapi_schema (FastAPI_init kw) = Unset
   \<and> openapi paths_of (FastAPI_init kw)
       = (Inl (AttributeError ''openapi_schema''), FastAPI_init kw)"
  by (simp add: openapi_def init_schema_unset)

lemma get_openapi_nonempty: "get_openapi paths_of t v d rs tg sv \<noteq> []"
  by (simp add: get_openapi_def)

lemma openapi_result:
  assumes "openapi paths_of self = (Inr d, self')"
  shows "d \<noteq> []" and "openapi_schema self' = Bound (Some d)"
  using assms
  by (auto simp: openapi_def compute_schema_def Let_def get_openapi_nonempty
      split: attr.splits option.splits if_splits)

lemma openapi_cached_hit:
  "openapi_schema self = Bound (Some d) \<Longrightarrow> d \<noteq> [] \<Longrightarrow> openapi paths_of self = (Inr d, self)"
  by (simp add: openapi_def)

lemma call_keeps_cache:
  "openapi_schema self = Bound (Some d) \<Longrightarrow> d \<noteq> [] \<Longrightarrow>
     openapi_schema (call paths_of c self) = Bound (Some d)"
  by (cases c)
    (simp_all add: openapi_cached_hit swagger_ui_html_def swagger_ui_oauth2_redirect_html_def
      redoc_html_def)

lemma calls_keep_cache:
  "openapi_schema self = Bound (Some d) \<Longrightarrow> d \<noteq> [] \<Longrightarrow>
     openapi_schema (calls paths_of cs self) = Bound (Some d)"
  by (induction cs arbitrary: self) (simp_all add: call_keeps_cache)

lemma fresh_app_fields:
  "title fresh_app = ''FastAPI''" "version fresh_app = ''0.1.0''" "description fresh_app = []"
  "openapi_tags fresh_app = None" "servers fresh_app = None"
  "openapi_schema fresh_app = Bound None"
  "openapi_url fresh_app = Some ''/openapi.json''"
  "swagger_ui_oauth2_redirect_url fresh_app = Some ''/docs/oauth2-redirect''"
  "swagger_ui_init_oauth fresh_app = None"
  by (simp_all add: fresh_app_def FastAPI_init_def register_openapi_def register_docs_def
      register_redoc_def assign_attributes_def arg_or_def no_kwargs_def add_route_def)

lemma fresh_app_routes: "filter include_in_schema (routes fresh_app) = []"
  by (simp add: fresh_app_def init_routes route_list_def arg_or_def no_kwargs_def)

lemma openapi_fresh_app:
  "openapi flagged_paths fresh_app =
     (Inr default_schema, fresh_app\<lparr>openapi_schema := Bound (Some default_schema)\<rparr>)"
  by (simp add: openapi_def compute_schema_def Let_def get_openapi_def fresh_app_fields
      fresh_app_routes default_schema_def opt_dicts_def flagged_paths_def)

text \<open>
  Claim C3. Once a call of \<open>openapi\<close> has returned a schema document, the document is
  stored in the application; after any sequence of calls of the four methods it is
  still the stored document and \<open>openapi\<close> returns it again, leaving the application
  unchanged; and an application with the same stored document returns it whatever its
  other fields are, so the later call does not compute anything from them.
\<close>

theorem openapi_cache_stable:
  assumes "openapi paths_of self = (Inr d, self')"
  shows "openapi_schema self' = Bound (Some d)
    \<and> (\<forall>cs. openapi_schema (calls paths_of cs self') = Bound (Some d)
           \<and> openapi paths_of (calls paths_of cs self') = (Inr d, calls paths_of cs self'))
    \<and> (\<forall>other. openapi_schema other = openapi_schema self' \<longrightarrow>
           openapi paths_of other = (Inr d, other))"
proof -
  from assms have ne: "d \<noteq> []" and cached: "openapi_schema self' = Bound (Some d)"
    by (rule openapi_result)+
  have later: "openapi_schema (calls paths_of cs self') = Bound (Some d)" for cs
    using cached ne by (rule calls_keep_cache)
  have "openapi paths_of (calls paths_of cs self') = (Inr d, calls paths_of cs self')" for cs
    using later ne by (rule openapi_cached_hit)
  moreover have "openapi paths_of other = (Inr d, other)"
    if "openapi_schema other = openapi_schema self'" for other
    using that cached ne by (simp add: openapi_cached_hit)
  ultimately show ?thesis using cached later by blast
qed

theorem openapi_cache_stable_witness:
  "openapi flagged_paths fresh_app =
     (Inr default_schema, fresh_app\<lparr>openapi_schema := Bound (Some default_schema)\<rparr>)
   \<and> openapi flagged_paths
        (calls flagged_paths [Call_redoc_html, Call_openapi, Call_swagger_ui_html]
          (fresh_app\<lparr>openapi_schema := Bound (Some default_schema)\<rparr>))
      = (Inr default_schema,
         calls flagged_paths [Call_redoc_html, Call_openapi, Call_swagger_ui_html]
           (fresh_app\<lparr>openapi_schema := Bound (Some default_schema)\<rparr>))"
  using openapi_cache_stable [OF openapi_fresh_app] openapi_fresh_app by blast

text \<open>
  What \<open>openapi\<close> does once the attribute is bound and empty: it returns the document
  that the generator computes from the application's own title, version, description,
  routes, tags and servers, which holds the first three as they are.
\<close>

lemma openapi_computed_document:
  assumes "openapi_schema self = Bound None \<or> openapi_schema self = Bound (Some [])"
  shows "\<exists>d. fst (openapi paths_of self) = Inr d
           \<and> d = get_openapi paths_of (title self) (version self) (description self)
                   (routes self) (openapi_tags self) (servers self)
           \<and> map_of d ''title'' = Some (PStr (title self))
           \<and> map_of d ''version'' = Some (PStr (version self))
           \<and> map_of d ''description'' = Some (PStr (description self))"
  using assms by (auto simp: openapi_def compute_schema_def Let_def get_openapi_def)

lemma titled_fields:
  "title (FastAPI_init titled_kwargs) = ''Shop''"
  "version (FastAPI_init titled_kwargs) = ''2.1''"
  "description (FastAPI_init titled_kwargs) = ''Orders''"
  by (simp_all add: titled_kwargs_def FastAPI_init_def register_openapi_def register_docs_def
      register_redoc_def assign_attributes_def arg_or_def no_kwargs_def add_route_def)

text \<open>
  Claim C4, as the code has it. The application built by
  \<open>FastAPI(title="Shop", description="Orders", version="2.1")\<close> stores the three
  values, but its schema accessor returns no document that could contain them: it
  raises \<open>AttributeError\<close>. The same holds after construction with any arguments.
\<close>

theorem openapi_no_document_after_construction:
  "title (FastAPI_init titled_kwargs) = ''Shop''
   \<and> version (FastAPI_init titled_kwargs) = ''2.1''
   \<and> description (FastAPI_init titled_kwargs) = ''Orders''
   \<and> fst (openapi paths_of (FastAPI_init titled_kwargs))
       = Inl (AttributeError ''openapi_schema'')
   \<and> (\<forall>d. fst (openapi paths_of (FastAPI_init kw)) \<noteq> Inr d)"
  by (simp add: titled_fields openapi_def init_schema_unset)

section \<open>Properties of the HTML accessors\<close>

lemma get_swagger_ui_html_reference:
  "sublist (''<script>url: '' @ u @ ''; oauth2RedirectUrl: '')
     (get_swagger_ui_html (Some u) t r init)"
proof -
  have "get_swagger_ui_html (Some u) t r init =
      (''<html><head><title>'' @ t @ ''</title></head><body>'')
      @ (''<script>url: '' @ u @ ''; oauth2RedirectUrl: '')
      @ (py_str r @ ''; initOAuth: ''
          @ (case init of None \<Rightarrow> ''null'' | Some d \<Rightarrow> render (PDict d))
          @ ''</script></body></html>'')"
    by (simp add: get_swagger_ui_html_def py_str_def)
  then show ?thesis by (simp only: sublist_appendI)
qed

text \<open>
  Claim C5. For an application whose schema URL is a non-empty string \<open>u\<close>, the page
  that \<open>swagger_ui_html\<close> returns is the page that the generator renders with \<open>u\<close>
  as its \<open>openapi_url\<close> argument, the application's title followed by
  \<open>" - Swagger UI"\<close>, its OAuth2-redirect URL and its OAuth2 settings; and \<open>u\<close>
  stands in that page as the schema reference, between \<open>url: \<close> and the OAuth2-redirect
  entry.
\<close>

theorem swagger_ui_html_embeds_openapi_url:
  assumes "openapi_url self = Some u" and "u \<noteq> []"
  shows "fst (swagger_ui_html self)
           = get_swagger_ui_html (Some u) (title self @ '' - Swagger UI'')
               (swagger_ui_oauth2_redirect_url self) (swagger_ui_init_oauth self)
    \<and> sublist (''<script>url: '' @ u @ ''; oauth2RedirectUrl: '')
        (fst (swagger_ui_html self))"
proof -
  have page: "fst (swagger_ui_html self)
           = get_swagger_ui_html (Some u) (title self @ '' - Swagger UI'')
               (swagger_ui_oauth2_redirect_url self) (swagger_ui_init_oauth self)"
    using assms(1) by (simp add: swagger_ui_html_def)
  then show ?thesis by (simp only: get_swagger_ui_html_reference simp_thms)
qed

lemma docs_page_fresh_app: "fst (swagger_ui_html fresh_app) = default_docs_page"
  by (simp add: swagger_ui_html_def get_swagger_ui_html_def py_str_def fresh_app_fields
      default_docs_page_def)

theorem swagger_ui_html_embeds_openapi_url_witness:
  "openapi_url fresh_app = Some ''/openapi.json'' \<and> ''/openapi.json'' \<noteq> []
   \<and> fst (swagger_ui_html fresh_app) = default_docs_page
   \<and> sublist ''<script>url: /openapi.json; oauth2RedirectUrl: ''
        (fst (swagger_ui_html fresh_app))"
  using swagger_ui_html_embeds_openapi_url [of fresh_app "''/openapi.json''"]
  by (simp add: fresh_app_fields docs_page_fresh_app)

text \<open>
  Claim C6. \<open>swagger_ui_oauth2_redirect_html\<close> returns the same page for any two
  applications, leaves the application unchanged, and returns the same page when it is
  called again.
\<close>

theorem oauth2_redirect_html_static:
  "fst (swagger_ui_oauth2_redirect_html a) = fst (swagger_ui_oauth2_redirect_html b)
   \<and> snd (swagger_ui_oauth2_redirect_html a) = a
   \<and> fst (swagger_ui_oauth2_redirect_html (snd (swagger_ui_oauth2_redirect_html a)))
       = fst (swagger_ui_oauth2_redirect_html a)"
  by (simp add: swagger_ui_oauth2_redirect_html_def)

text \<open>
  Claim C7. \<open>swagger_ui_html\<close> and \<open>redoc_html\<close> leave the application unchanged,
  the stored schema document included. Two applications with the same schema URL, title,
  OAuth2-redirect URL and OAuth2 settings get the same docs page, and two applications
  with the same schema URL and title get the same redoc page.
\<close>

theorem docs_accessors_pure:
  "snd (swagger_ui_html self) = self
   \<and> snd (redoc_html self) = self
   \<and> (openapi_url a = openapi_url b \<and> title a = title b
        \<and> swagger_ui_oauth2_redirect_url a = swagger_ui_oauth2_redirect_url b
        \<and> swagger_ui_init_oauth a = swagger_ui_init_oauth b
      \<longrightarrow> fst (swagger_ui_html a) = fst (swagger_ui_html b))
   \<and> (openapi_url a = openapi_url b \<and> title a = title b
      \<longrightarrow> fst (redoc_html a) = fst (redoc_html b))"
  by (simp add: swagger_ui_html_def redoc_html_def)

theorem docs_accessors_pure_witness:
  "openapi_url fresh_app = openapi_url (FastAPI_init no_kwargs)
   \<and> title fresh_app = title (FastAPI_init no_kwargs)
   \<and> swagger_ui_oauth2_redirect_url fresh_app
       = swagger_ui_oauth2_redirect_url (FastAPI_init no_kwargs)
   \<and> swagger_ui_init_oauth fresh_app = swagger_ui_init_oauth (FastAPI_init no_kwargs)
   \<and> fresh_app \<noteq> FastAPI_init no_kwargs
   \<and> fst (swagger_ui_html fresh_app) = fst (swagger_ui_html (FastAPI_init no_kwargs))
   \<and> fst (redoc_html fresh_app) = fst (redoc_html (FastAPI_init no_kwargs))
   \<and> snd (swagger_ui_html fresh_app) = fresh_app
   \<and> snd (redoc_html fresh_app) = fresh_app"
proof -
  have same: "openapi_url fresh_app = openapi_url (FastAPI_init no_kwargs)"
    "title fresh_app = title (FastAPI_init no_kwargs)"
    "swagger_ui_oauth2_redirect_url fresh_app
       = swagger_ui_oauth2_redirect_url (FastAPI_init no_kwargs)"
    "swagger_ui_init_oauth fresh_app = swagger_ui_init_oauth (FastAPI_init no_kwargs)"
    by (simp_all add: fresh_app_def)
  have "openapi_schema fresh_app \<noteq> openapi_schema (FastAPI_init no_kwargs)"
    by (simp add: fresh_app_def init_schema_unset)
  then have diff: "fresh_app \<noteq> FastAPI_init no_kwargs" by auto
  show ?thesis
    using docs_accessors_pure [of fresh_app fresh_app "FastAPI_init no_kwargs"] same diff
    by simp
qed

section \<open>Defaults, module loading and the schema flag\<close>

text \<open>
  Claim C8. When a call of the constructor does not pass \<open>openapi_url\<close>, the
  application's schema URL is \<open>"/openapi.json"\<close>; when it does not pass
  \<open>docs_url\<close>, the docs URL is \<open>"/docs"\<close>; when it does not pass
  \<open>swagger_ui_oauth2_redirect_url\<close>, the OAuth2-redirect URL is
  \<open>"/docs/oauth2-redirect"\<close>; when it does not pass \<open>redoc_url\<close>, the redoc URL
  is \<open>"/redoc"\<close>.
\<close>

theorem init_default_urls:
  "(kw_openapi_url kw = None \<longrightarrow> openapi_url (FastAPI_init kw) = Some ''/openapi.json'')
   \<and> (kw_docs_url kw = None \<longrightarrow> docs_url (FastAPI_init kw) = Some ''/docs'')
   \<and> (kw_swagger_ui_oauth2_redirect_url kw = None \<longrightarrow>
        swagger_ui_oauth2_redirect_url (FastAPI_init kw) = Some ''/docs/oauth2-redirect'')
   \<and> (kw_redoc_url kw = None \<longrightarrow> redoc_url (FastAPI_init kw) = Some ''/redoc'')"
  by (simp add: init_urls arg_or_def)

theorem init_default_urls_witness:
  "kw_openapi_url no_kwargs = None \<and> kw_docs_url no_kwargs = None
   \<and> kw_swagger_ui_oauth2_redirect_url no_kwargs = None \<and> kw_redoc_url no_kwargs = None
   \<and> openapi_url (FastAPI_init no_kwargs) = Some ''/openapi.json''
   \<and> docs_url (FastAPI_init no_kwargs) = Some ''/docs''
   \<and> swagger_ui_oauth2_redirect_url (FastAPI_init no_kwargs) = Some ''/docs/oauth2-redirect''
   \<and> redoc_url (FastAPI_init no_kwargs) = Some ''/redoc''"
  using init_default_urls [of no_kwargs] by (simp add: no_kwargs_def)

lemma unbound_names:
  "find (\<lambda>n. n \<notin> set (imported_names @ builtin_names)) class_statement_names = Some ''Callable''"
  by (simp add: imported_names_def builtin_names_def class_statement_names_def
      init_annotations_def)

text \<open>
  Claim C9. When the imports succeed, loading the module raises \<open>NameError\<close> for
  \<open>Callable\<close>, the first name of the signature of \<open>__init__\<close> that is neither
  imported nor built in. Whatever the imports do, loading the module raises, and so
  does every attempt to construct an application.
\<close>

theorem module_load_fails:
  "load_module None = Inl (NameError ''Callable'')
   \<and> (\<exists>e. load_module import_outcome = Inl e)
   \<and> (\<exists>e. instantiate import_outcome kw = Inl e)"
proof -
  have none: "load_module None = Inl (NameError ''Callable'')"
    unfolding load_module_def by (simp only: unbound_names option.case)
  have any: "\<exists>e. load_module import_outcome = Inl e"
  proof (cases import_outcome)
    case None
    with none show ?thesis by simp
  next
    case (Some e)
    then show ?thesis by (simp add: load_module_def)
  qed
  then have "\<exists>e. instantiate import_outcome kw = Inl e"
    by (auto simp: instantiate_def)
  with none any show ?thesis by simp
qed






end
